theory Spec2Isabelle
  imports Complex_Main
begin

section \<open>JavaScript values\<close>

subsection \<open>Numbers\<close>

text \<open>
  A JavaScript number is an IEEE 754 binary64 value. The finite ones are kept by their
  exact rational value (\<open>Fin 0\<close> is \<open>+0\<close>); the negative zero, the two infinities
  and NaN are constructors of their own. The arithmetic operators compute the exact
  rational result and round it to the nearest binary64 value, ties to even
  (ECMAScript \<open>Number::add\<close>, \<open>Number::multiply\<close>, \<open>Number::divide\<close>).
\<close>

datatype jsnum = NaN | PosInf | NegInf | NegZero | Fin rat

definition pow2 :: "int \<Rightarrow> rat" where
  "pow2 e = (if 0 \<le> e then 2 ^ nat e else 1 / 2 ^ nat (- e))"

text \<open>Number of binary digits of a positive integer.\<close>

function bitlen :: "int \<Rightarrow> nat" where
  "bitlen n = (if n \<le> 0 then 0 else Suc (bitlen (n div 2)))"
  by pat_completeness auto
termination
  by (relation "measure nat") auto

declare bitlen.simps [simp del]

text \<open>
  Rounding of an exact result to binary64. The exact magnitude is the fraction
  \<open>p / q\<close> of positive integers. \<open>ilog2_frac\<close> is the exponent \<open>k\<close> with
  \<open>2^k \<le> p / q < 2^(k+1)\<close>; the last place of the result has the exponent
  \<open>e = max (k - 52) (-1074)\<close> (53 significant bits, subnormals below
  \<open>2^(-1022)\<close>); the significand is \<open>p / (q * 2^e)\<close> rounded to the nearest
  integer, ties to even; a rounded magnitude of \<open>2^1024\<close> or more is an infinity,
  a significand 0 is a zero of the sign of the exact result.
\<close>

definition le_pow2 :: "int \<Rightarrow> int \<Rightarrow> int \<Rightarrow> bool" where
  \<comment> \<open>\<open>2^d \<le> p / q\<close>\<close>
  "le_pow2 d p q = (if 0 \<le> d then 2 ^ nat d * q \<le> p else q \<le> 2 ^ nat (- d) * p)"

definition ilog2_adjust :: "int \<Rightarrow> int \<Rightarrow> int \<Rightarrow> int" where
  "ilog2_adjust d p q = (if le_pow2 d p q then d else d - 1)"

definition ilog2_frac :: "int \<Rightarrow> int \<Rightarrow> int" where
  "ilog2_frac p q = ilog2_adjust (int (bitlen p) - int (bitlen q)) p q"

definition round_tie :: "int \<Rightarrow> int \<Rightarrow> int \<Rightarrow> int" where
  \<comment> \<open>quotient \<open>f\<close>, twice the remainder \<open>r2\<close>, divisor \<open>d\<close>\<close>
  "round_tie f r2 d =
     (if r2 < d then f
      else if d < r2 then f + 1
      else if even f then f else f + 1)"

definition round_half_even :: "int \<Rightarrow> int \<Rightarrow> int" where
  \<comment> \<open>nearest integer to \<open>n / d\<close>, ties to even\<close>
  "round_half_even n d = round_tie (n div d) (2 * (n mod d)) d"

definition fl_pack :: "bool \<Rightarrow> int \<Rightarrow> rat \<Rightarrow> jsnum" where
  "fl_pack pos m v =
     (if pow2 1024 \<le> v then (if pos then PosInf else NegInf)
      else if m = 0 then (if pos then Fin 0 else NegZero)
      else Fin (if pos then v else - v))"

definition fl_mant :: "bool \<Rightarrow> int \<Rightarrow> int \<Rightarrow> jsnum" where
  "fl_mant pos e m = fl_pack pos m (of_int m * pow2 e)"

definition fl_scale :: "bool \<Rightarrow> int \<Rightarrow> int \<Rightarrow> int \<Rightarrow> jsnum" where
  "fl_scale pos p q e =
     fl_mant pos e
       (if 0 \<le> e then round_half_even p (q * 2 ^ nat e)
        else round_half_even (p * 2 ^ nat (- e)) q)"

definition fl_frac :: "bool \<Rightarrow> int \<Rightarrow> int \<Rightarrow> jsnum" where
  "fl_frac pos p q = fl_scale pos p q (max (ilog2_frac p q - 52) (- 1074))"

definition fl :: "rat \<Rightarrow> jsnum" where
  "fl x =
     (if x = 0 then Fin 0
      else case quotient_of \<bar>x\<bar> of (p, q) \<Rightarrow> fl_frac (0 < x) p q)"

fun is_zero :: "jsnum \<Rightarrow> bool" where
  "is_zero NegZero = True"
| "is_zero (Fin r) = (r = 0)"
| "is_zero _ = False"

fun is_inf :: "jsnum \<Rightarrow> bool" where
  "is_inf PosInf = True"
| "is_inf NegInf = True"
| "is_inf _ = False"

fun is_neg :: "jsnum \<Rightarrow> bool" where
  "is_neg NegInf = True"
| "is_neg NegZero = True"
| "is_neg (Fin r) = (r < 0)"
| "is_neg _ = False"

fun js_neg :: "jsnum \<Rightarrow> jsnum" where
  "js_neg NaN = NaN"
| "js_neg PosInf = NegInf"
| "js_neg NegInf = PosInf"
| "js_neg NegZero = Fin 0"
| "js_neg (Fin r) = (if r = 0 then NegZero else Fin (- r))"

definition signed_zero :: "bool \<Rightarrow> jsnum" where
  "signed_zero neg = (if neg then NegZero else Fin 0)"

definition signed_inf :: "bool \<Rightarrow> jsnum" where
  "signed_inf neg = (if neg then NegInf else PosInf)"

text \<open>The rational value of a finite number.\<close>

fun rat_of :: "jsnum \<Rightarrow> rat" where
  "rat_of (Fin r) = r"
| "rat_of _ = 0"

fun is_finite :: "jsnum \<Rightarrow> bool" where
  "is_finite NegZero = True"
| "is_finite (Fin r) = True"
| "is_finite _ = False"

text \<open>A rational is a binary64 value when rounding leaves it as it is.\<close>

definition representable :: "rat \<Rightarrow> bool" where
  "representable r = (fl r = Fin r)"

text \<open>\<open>a + b\<close> on numbers.\<close>

fun js_add :: "jsnum \<Rightarrow> jsnum \<Rightarrow> jsnum" where
  "js_add NaN _ = NaN"
| "js_add _ NaN = NaN"
| "js_add PosInf NegInf = NaN"
| "js_add NegInf PosInf = NaN"
| "js_add PosInf _ = PosInf"
| "js_add NegInf _ = NegInf"
| "js_add _ PosInf = PosInf"
| "js_add _ NegInf = NegInf"
| "js_add NegZero NegZero = NegZero"
| "js_add NegZero (Fin y) = Fin y"
| "js_add (Fin x) NegZero = Fin x"
| "js_add (Fin x) (Fin y) = fl (x + y)"

text \<open>\<open>a - b\<close> on numbers.\<close>

definition js_sub :: "jsnum \<Rightarrow> jsnum \<Rightarrow> jsnum" where
  "js_sub a b = js_add a (js_neg b)"

text \<open>\<open>a * b\<close> on numbers.\<close>

definition js_mul :: "jsnum \<Rightarrow> jsnum \<Rightarrow> jsnum" where
  "js_mul a b =
     (if a = NaN \<or> b = NaN then NaN
      else if (is_inf a \<and> is_zero b) \<or> (is_zero a \<and> is_inf b) then NaN
      else if is_inf a \<or> is_inf b then signed_inf (is_neg a \<noteq> is_neg b)
      else if is_zero a \<or> is_zero b then signed_zero (is_neg a \<noteq> is_neg b)
      else fl (rat_of a * rat_of b))"

text \<open>\<open>a / b\<close> on numbers.\<close>

definition js_div :: "jsnum \<Rightarrow> jsnum \<Rightarrow> jsnum" where
  "js_div a b =
     (if a = NaN \<or> b = NaN then NaN
      else if (is_inf a \<and> is_inf b) \<or> (is_zero a \<and> is_zero b) then NaN
      else if is_inf a \<or> is_zero b then signed_inf (is_neg a \<noteq> is_neg b)
      else if is_inf b \<or> is_zero a then signed_zero (is_neg a \<noteq> is_neg b)
      else fl (rat_of a / rat_of b))"

subsection \<open>Values, \<open>typeof\<close>, truthiness, property access\<close>

text \<open>
  The values that reach the tools are decoded JSON (\<open>undefined\<close> for an absent
  \<open>arguments\<close> member), and the tools build object literals, arrays and \<open>Date\<close>
  objects from them. An object is the list of its own properties in insertion order.
  Strings are lists of characters.
\<close>

datatype jsval =
    JUndefined
  | JNull
  | JBool bool
  | JNum jsnum
  | JStr string
  | JDate int
  | JArr "jsval list"
  | JObj "(string \<times> jsval) list"

fun js_typeof :: "jsval \<Rightarrow> string" where
  "js_typeof JUndefined = ''undefined''"
| "js_typeof JNull = ''object''"
| "js_typeof (JBool b) = ''boolean''"
| "js_typeof (JNum n) = ''number''"
| "js_typeof (JStr s) = ''string''"
| "js_typeof (JDate t) = ''object''"
| "js_typeof (JArr xs) = ''object''"
| "js_typeof (JObj kvs) = ''object''"

text \<open>\<open>!v\<close> is \<open>\<not> js_truthy v\<close>.\<close>

fun js_truthy :: "jsval \<Rightarrow> bool" where
  "js_truthy JUndefined = False"
| "js_truthy JNull = False"
| "js_truthy (JBool b) = b"
| "js_truthy (JNum n) = (\<not> is_zero n \<and> n \<noteq> NaN)"
| "js_truthy (JStr s) = (s \<noteq> [])"
| "js_truthy (JDate t) = True"
| "js_truthy (JArr xs) = True"
| "js_truthy (JObj kvs) = True"

text \<open>Decimal digits of a natural number: the property keys of an array.\<close>

definition digit_char :: "nat \<Rightarrow> char" where
  "digit_char d = ''0123456789'' ! d"

function show_nat :: "nat \<Rightarrow> string" where
  "show_nat n = (if n < 10 then [digit_char n] else show_nat (n div 10) @ [digit_char (n mod 10)])"
  by pat_completeness auto
termination
  by (relation "measure id") auto

declare show_nat.simps [simp del]

text \<open>\<open>Object.entries(v)\<close>: the own enumerable string-keyed properties.\<close>

fun js_entries :: "jsval \<Rightarrow> (string \<times> jsval) list" where
  "js_entries (JObj kvs) = kvs"
| "js_entries (JArr xs) = zip (map show_nat [0..<length xs]) xs"
| "js_entries (JStr s) = zip (map show_nat [0..<length s]) (map (\<lambda>c. JStr [c]) s)"
| "js_entries _ = []"

text \<open>
  \<open>key in v\<close> for an object or an array \<open>v\<close>, by own properties. The operator also
  finds the names every object inherits (\<open>toString\<close>, \<open>constructor\<close>, ...); they
  are left out here, and no schema of this server requires such a name.
\<close>

fun js_in :: "string \<Rightarrow> jsval \<Rightarrow> bool" where
  "js_in key (JObj kvs) = (key \<in> set (map fst kvs))"
| "js_in key (JArr xs) = (key \<in> set (map show_nat [0..<length xs]) \<or> key = ''length'')"
| "js_in key _ = False"

text \<open>
  \<open>v.key\<close> for the property names the tools read (\<open>operation\<close>, \<open>a\<close>, \<open>b\<close>,
  \<open>path\<close>, \<open>content\<close>, \<open>detail\<close>): the own property of an object, \<open>undefined\<close>
  where there is none. Reading a property of \<open>undefined\<close> or \<open>null\<close> throws; that
  case is \<open>destructurable\<close> below.
\<close>

fun js_get :: "jsval \<Rightarrow> string \<Rightarrow> jsval" where
  "js_get (JObj kvs) key = (case map_of kvs key of None \<Rightarrow> JUndefined | Some v \<Rightarrow> v)"
| "js_get _ key = JUndefined"

fun destructurable :: "jsval \<Rightarrow> bool" where
  "destructurable JUndefined = False"
| "destructurable JNull = False"
| "destructurable _ = True"

subsection \<open>Strings built by template literals, thrown values\<close>

text \<open>
  A template literal \<open>`Unknown operation: ${operation}`\<close> is kept as its parts: the
  literal text and the interpolated values (\<open>Interp v\<close> is \<open>String(v)\<close>, which for a
  string \<open>v\<close> is \<open>v\<close> itself). \<open>EngineText\<close> is the message the engine gives to
  a \<open>TypeError\<close> it raises itself.
\<close>

datatype part = Lit string | Interp jsval | EngineText

type_synonym message = "part list"

text \<open>
  A thrown value: an \<open>Error\<close> instance with its \<open>message\<close> and, on the errors of the
  Node API, its \<open>code\<close>; or a value that is not an \<open>Error\<close>.
\<close>

datatype thrown = ErrorObj "string option" message | NonError jsval

abbreviation Error :: "message \<Rightarrow> thrown" where
  "Error m \<equiv> ErrorObj None m"

abbreviation TypeError :: thrown where
  "TypeError \<equiv> ErrorObj None [EngineText]"

section \<open>base-tool.ts\<close>

record prop_schema =
  ptype :: string
  penum :: "string list option"
  pdescription :: string

record input_schema =
  properties :: "(string \<times> prop_schema) list"
  required :: "string list option"

record tool_definition =
  def_name :: string
  def_description :: string
  def_inputSchema :: input_schema

text \<open>The loop over \<open>required\<close>: the first missing field throws.\<close>

fun check_required :: "string list \<Rightarrow> jsval \<Rightarrow> thrown + unit" where
  "check_required [] args = Inr ()"
| "check_required (field # rest) args =
     (if \<not> js_in field args then Inl (Error [Lit ''Missing required argument: '', Lit field])
      else check_required rest args)"

text \<open>The three type tests on one entry of \<open>Object.entries(args)\<close>.\<close>

definition check_entry :: "(string \<times> prop_schema) list \<Rightarrow> string \<times> jsval \<Rightarrow> thrown + unit" where
  \<open>check_entry props kv =
     (case kv of (key, val) \<Rightarrow>
        (case map_of props key of
           None \<Rightarrow> Inr ()
         | Some p \<Rightarrow>
             let expectedType = ptype p; actualType = js_typeof val
             in if expectedType = ''number'' \<and> actualType \<noteq> ''number''
                then Inl (Error [Lit ''Argument "'', Lit key, Lit ''" must be a number''])
                else if expectedType = ''string'' \<and> actualType \<noteq> ''string''
                then Inl (Error [Lit ''Argument "'', Lit key, Lit ''" must be a string''])
                else if expectedType = ''boolean'' \<and> actualType \<noteq> ''boolean''
                then Inl (Error [Lit ''Argument "'', Lit key, Lit ''" must be a boolean''])
                else Inr ()))\<close>

fun check_entries :: "(string \<times> prop_schema) list \<Rightarrow> (string \<times> jsval) list \<Rightarrow> thrown + unit" where
  "check_entries props [] = Inr ()"
| "check_entries props (kv # kvs) =
     (case check_entry props kv of
        Inl e \<Rightarrow> Inl e
      | Inr u \<Rightarrow> check_entries props kvs)"

text \<open>\<open>BaseTool.validateArguments\<close>, for a tool with the input schema \<open>s\<close>.\<close>

definition validateArguments :: "input_schema \<Rightarrow> jsval \<Rightarrow> thrown + unit" where
  "validateArguments s args =
     (if \<not> js_truthy args \<or> js_typeof args \<noteq> ''object''
      then Inl (Error [Lit ''Arguments must be an object''])
      else
        (case check_required (case required s of None \<Rightarrow> [] | Some names \<Rightarrow> names) args of
           Inl e \<Rightarrow> Inl e
         | Inr u \<Rightarrow> check_entries (properties s) (js_entries args)))"

section \<open>The runtime\<close>

text \<open>
  What the tools call and this repository does not define is a parameter of the model:
  \<open>path.join\<close>, the four functions of \<open>fs/promises\<close> (each takes the state of the
  file system and returns the new one with its result; a rejected promise is \<open>Inl\<close> of
  a Node error, an \<open>Error\<close> instance with a \<open>code\<close>), and the result of an
  arithmetic operator on operands that are not both numbers (string concatenation and
  the \<open>ToNumber\<close> coercions).
\<close>

datatype node_error = NodeError string message

fun thrown_of :: "node_error \<Rightarrow> thrown" where
  "thrown_of (NodeError code msg) = ErrorObj (Some code) msg"

record stats =
  st_isDirectory :: bool
  st_size :: jsnum
  st_birthtime :: int
  st_mtime :: int

record 'fs runtime =
  rt_join :: "string \<Rightarrow> string \<Rightarrow> string"
  rt_readFile :: "string \<Rightarrow> 'fs \<Rightarrow> (node_error + string) \<times> 'fs"
  rt_writeFile :: "string \<Rightarrow> jsval \<Rightarrow> 'fs \<Rightarrow> (node_error + unit) \<times> 'fs"
  rt_readdir :: "string \<Rightarrow> 'fs \<Rightarrow> (node_error + string list) \<times> 'fs"
  rt_stat :: "string \<Rightarrow> 'fs \<Rightarrow> (node_error + stats) \<times> 'fs"
  rt_arith :: "string \<Rightarrow> jsval \<Rightarrow> jsval \<Rightarrow> jsval"

text \<open>
  The answers of the \<open>os\<close> module and of the clock at the time of a request. The
  source asks \<open>totalmem()\<close> and \<open>freemem()\<close> twice in one execution; here each
  has one answer per request.
\<close>

record cpu_info =
  cpu_model :: string
  cpu_speed :: jsnum

record host =
  os_platform :: string
  os_arch :: string
  os_uptime :: rat
  os_totalmem :: int
  os_freemem :: int
  os_cpus :: "cpu_info list"
  clock_now :: int

section \<open>tools/calculator.ts\<close>

definition calculator_schema :: input_schema where
  "calculator_schema =
     \<lparr>properties =
        [(''operation'',
            \<lparr>ptype = ''string'',
             penum = Some [''add'', ''subtract'', ''multiply'', ''divide''],
             pdescription = ''The mathematical operation to perform''\<rparr>),
         (''a'', \<lparr>ptype = ''number'', penum = None, pdescription = ''First number''\<rparr>),
         (''b'', \<lparr>ptype = ''number'', penum = None, pdescription = ''Second number''\<rparr>)],
      required = Some [''operation'', ''a'', ''b'']\<rparr>"

text \<open>An arithmetic operator: on two numbers the IEEE operation, else the runtime's coercion.\<close>

definition js_arith ::
  "(string \<Rightarrow> jsval \<Rightarrow> jsval \<Rightarrow> jsval) \<Rightarrow> string \<Rightarrow> (jsnum \<Rightarrow> jsnum \<Rightarrow> jsnum) \<Rightarrow> jsval \<Rightarrow> jsval \<Rightarrow> jsval" where
  "js_arith other opr f a b =
     (case (a, b) of
        (JNum x, JNum y) \<Rightarrow> JNum (f x y)
      | _ \<Rightarrow> other opr a b)"

text \<open>\<open>b === 0\<close>\<close>

fun strict_eq_zero :: "jsval \<Rightarrow> bool" where
  "strict_eq_zero (JNum n) = is_zero n"
| "strict_eq_zero _ = False"

text \<open>The \<open>switch\<close> of \<open>CalculatorTool.execute\<close>: the value of \<open>result\<close>, or the throw.\<close>

definition calc_switch ::
  "(string \<Rightarrow> jsval \<Rightarrow> jsval \<Rightarrow> jsval) \<Rightarrow> jsval \<Rightarrow> jsval \<Rightarrow> jsval \<Rightarrow> thrown + jsval" where
  "calc_switch other operation a b =
     (if operation = JStr ''add'' then Inr (js_arith other ''+'' js_add a b)
      else if operation = JStr ''subtract'' then Inr (js_arith other ''-'' js_sub a b)
      else if operation = JStr ''multiply'' then Inr (js_arith other ''*'' js_mul a b)
      else if operation = JStr ''divide'' then
        (if strict_eq_zero b then Inl (Error [Lit ''Division by zero is not allowed''])
         else Inr (js_arith other ''/'' js_div a b))
      else Inl (Error [Lit ''Unknown operation: '', Interp operation]))"

definition calc_execute :: "(string \<Rightarrow> jsval \<Rightarrow> jsval \<Rightarrow> jsval) \<Rightarrow> jsval \<Rightarrow> thrown + jsval" where
  "calc_execute other args =
     (if \<not> destructurable args then Inl TypeError
      else
        let operation = js_get args ''operation'';
            a = js_get args ''a'';
            b = js_get args ''b''
        in case calc_switch other operation a b of
             Inl e \<Rightarrow> Inl e
           | Inr res \<Rightarrow>
               Inr (JObj
                 [(''success'', JBool True),
                  (''data'', JObj
                     [(''operation'', operation),
                      (''operands'', JObj [(''a'', a), (''b'', b)]),
                      (''result'', res)])]))"

text \<open>
  For the statements about the calculator: the arguments object
  \<open>{operation, a, b}\<close> with two numbers, the object \<open>execute\<close> returns, the
  operator of each operation name on numbers, and the exact value of that operator on
  rationals.
\<close>

definition calc_args :: "string \<Rightarrow> jsnum \<Rightarrow> jsnum \<Rightarrow> jsval" where
  "calc_args opn a b = JObj [(''operation'', JStr opn), (''a'', JNum a), (''b'', JNum b)]"

definition calc_payload :: "string \<Rightarrow> jsnum \<Rightarrow> jsnum \<Rightarrow> jsnum \<Rightarrow> jsval" where
  "calc_payload opn a b res =
     JObj [(''success'', JBool True),
           (''data'', JObj
              [(''operation'', JStr opn),
               (''operands'', JObj [(''a'', JNum a), (''b'', JNum b)]),
               (''result'', JNum res)])]"

definition num_op :: "string \<Rightarrow> jsnum \<Rightarrow> jsnum \<Rightarrow> jsnum" where
  "num_op opn a b =
     (if opn = ''add'' then js_add a b
      else if opn = ''subtract'' then js_sub a b
      else if opn = ''multiply'' then js_mul a b
      else js_div a b)"

definition exact_op :: "string \<Rightarrow> rat \<Rightarrow> rat \<Rightarrow> rat" where
  "exact_op opn x y =
     (if opn = ''add'' then x + y
      else if opn = ''subtract'' then x - y
      else if opn = ''multiply'' then x * y
      else x / y)"

section \<open>tools/file-operations.ts\<close>

definition file_operations_schema :: input_schema where
  "file_operations_schema =
     \<lparr>properties =
        [(''operation'',
            \<lparr>ptype = ''string'',
             penum = Some [''read'', ''write'', ''list'', ''info''],
             pdescription = ''The file operation to perform''\<rparr>),
         (''path'',
            \<lparr>ptype = ''string'', penum = None,
             pdescription = ''File or directory path (relative to workspace)''\<rparr>),
         (''content'',
            \<lparr>ptype = ''string'', penum = None,
             pdescription = ''Content to write (required for write operation)''\<rparr>)],
      required = Some [''operation'', ''path'']\<rparr>"

text \<open>\<open>s.startsWith(pat)\<close> and \<open>s.includes(pat)\<close> on strings.\<close>

definition js_startsWith :: "string \<Rightarrow> string \<Rightarrow> bool" where
  "js_startsWith s pat = (take (length pat) s = pat)"

fun js_includes :: "string \<Rightarrow> string \<Rightarrow> bool" where
  "js_includes [] pat = (pat = [])"
| "js_includes (c # cs) pat = (js_startsWith (c # cs) pat \<or> js_includes cs pat)"

text \<open>
  \<open>validatePath\<close>. The parameter is typed \<open>string\<close> and receives \<open>args.path\<close>
  unchecked. On an array \<open>includes\<close> is the array's (membership of the string
  \<open>'..'\<close>) and \<open>startsWith\<close> is not a function; on every other value that is not a
  string the call of \<open>includes\<close> is a \<open>TypeError\<close>.
\<close>

definition validatePath :: "(string \<Rightarrow> string \<Rightarrow> string) \<Rightarrow> string \<Rightarrow> jsval \<Rightarrow> thrown + string" where
  "validatePath join workspaceRoot path =
     (case path of
        JStr p \<Rightarrow>
          if js_includes p ''..'' then Inl (Error [Lit ''Path traversal (..) is not allowed''])
          else if js_startsWith p ''/'' then Inl (Error [Lit ''Absolute paths are not allowed''])
          else Inr (join workspaceRoot p)
      | JArr xs \<Rightarrow>
          if JStr ''..'' \<in> set xs then Inl (Error [Lit ''Path traversal (..) is not allowed''])
          else Inl TypeError
      | _ \<Rightarrow> Inl TypeError)"

text \<open>
  The \<open>stat\<close> of every entry of a listed directory. \<open>Promise.all\<close> starts them all;
  they run here in the order of the entries, and the first rejected one in that order is
  the rejection of the whole.
\<close>

definition entry_of :: "string \<Rightarrow> stats \<Rightarrow> jsval" where
  "entry_of entry st =
     JObj [(''name'', JStr entry),
           (''type'', JStr (if st_isDirectory st then ''directory'' else ''file'')),
           (''size'', JNum (st_size st))]"

fun stat_entries :: "'fs runtime \<Rightarrow> string \<Rightarrow> string list \<Rightarrow> 'fs \<Rightarrow> (thrown + jsval list) \<times> 'fs" where
  "stat_entries rt safePath [] fs = (Inr [], fs)"
| "stat_entries rt safePath (entry # rest) fs =
     (case rt_stat rt (rt_join rt safePath entry) fs of
        (r, fs') \<Rightarrow>
          (case stat_entries rt safePath rest fs' of
             (rs, fs'') \<Rightarrow>
               ((case r of
                   Inl e \<Rightarrow> Inl (thrown_of e)
                 | Inr st \<Rightarrow>
                     (case rs of
                        Inl e' \<Rightarrow> Inl e'
                      | Inr vs \<Rightarrow> Inr (entry_of entry st # vs))),
                fs'')))"

text \<open>The body of the \<open>try\<close> block of \<open>FileOperationsTool.execute\<close>.\<close>

definition fo_switch ::
  "'fs runtime \<Rightarrow> jsval \<Rightarrow> jsval \<Rightarrow> jsval \<Rightarrow> string \<Rightarrow> 'fs \<Rightarrow> (thrown + jsval) \<times> 'fs" where
  "fo_switch rt operation path content safePath fs =
     (if operation = JStr ''read'' then
        (case rt_readFile rt safePath fs of
           (Inl e, fs') \<Rightarrow> (Inl (thrown_of e), fs')
         | (Inr fileContent, fs') \<Rightarrow>
             (Inr (JObj
                [(''success'', JBool True),
                 (''data'', JObj
                    [(''path'', path),
                     (''content'', JStr fileContent),
                     (''size'', JNum (Fin (of_nat (length fileContent))))])]),
              fs'))
      else if operation = JStr ''write'' then
        (if \<not> js_truthy content
         then (Inl (Error [Lit ''Content is required for write operation'']), fs)
         else
           (case rt_writeFile rt safePath content fs of
              (Inl e, fs') \<Rightarrow> (Inl (thrown_of e), fs')
            | (Inr u, fs') \<Rightarrow>
                (Inr (JObj
                   [(''success'', JBool True),
                    (''data'', JObj
                       [(''path'', path),
                        (''message'', JStr ''File written successfully'')])]),
                 fs')))
      else if operation = JStr ''list'' then
        (case rt_readdir rt safePath fs of
           (Inl e, fs') \<Rightarrow> (Inl (thrown_of e), fs')
         | (Inr entries, fs') \<Rightarrow>
             (case stat_entries rt safePath entries fs' of
                (Inl e, fs'') \<Rightarrow> (Inl e, fs'')
              | (Inr fileList, fs'') \<Rightarrow>
                  (Inr (JObj
                     [(''success'', JBool True),
                      (''data'', JObj [(''path'', path), (''entries'', JArr fileList)])]),
                   fs'')))
      else if operation = JStr ''info'' then
        (case rt_stat rt safePath fs of
           (Inl e, fs') \<Rightarrow> (Inl (thrown_of e), fs')
         | (Inr st, fs') \<Rightarrow>
             (Inr (JObj
                [(''success'', JBool True),
                 (''data'', JObj
                    [(''path'', path),
                     (''type'', JStr (if st_isDirectory st then ''directory'' else ''file'')),
                     (''size'', JNum (st_size st)),
                     (''created'', JDate (st_birthtime st)),
                     (''modified'', JDate (st_mtime st))])]),
              fs'))
      else (Inl (Error [Lit ''Unknown operation: '', Interp operation]), fs))"

text \<open>The \<open>catch\<close> block: what \<open>execute\<close> throws for a value thrown in the \<open>try\<close>.\<close>

fun fo_catch :: "jsval \<Rightarrow> thrown \<Rightarrow> thrown" where
  "fo_catch path (ErrorObj code msg) =
     (if code = Some ''ENOENT'' then Error [Lit ''File or directory not found: '', Interp path]
      else ErrorObj code msg)"
| "fo_catch path (NonError v) = Error [Lit ''Unknown error occurred'']"

definition fo_execute :: "'fs runtime \<Rightarrow> string \<Rightarrow> jsval \<Rightarrow> 'fs \<Rightarrow> (thrown + jsval) \<times> 'fs" where
  "fo_execute rt workspaceRoot args fs =
     (if \<not> destructurable args then (Inl TypeError, fs)
      else
        let operation = js_get args ''operation'';
            path = js_get args ''path'';
            content = js_get args ''content''
        in case validatePath (rt_join rt) workspaceRoot path of
             Inl e \<Rightarrow> (Inl e, fs)
           | Inr safePath \<Rightarrow>
               (case fo_switch rt operation path content safePath fs of
                  (Inl error, fs') \<Rightarrow> (Inl (fo_catch path error), fs')
                | (Inr res, fs') \<Rightarrow> (Inr res, fs')))"

section \<open>tools/system-info.ts\<close>

definition system_info_schema :: input_schema where
  "system_info_schema =
     \<lparr>properties =
        [(''detail'',
            \<lparr>ptype = ''string'',
             penum = Some [''basic'', ''full''],
             pdescription = ''Level of detail (basic or full)''\<rparr>)],
      required = Some []\<rparr>"

text \<open>
  \<open>Math.round(x / 1024 / 1024)\<close> for a byte count \<open>x\<close> (an integer below \<open>2^53\<close>
  in magnitude, so both divisions are exact): the nearest integer, a tie upwards, and
  \<open>-0\<close> for a negative \<open>x\<close> that rounds to zero.
\<close>

definition round_mb :: "int \<Rightarrow> jsnum" where
  "round_mb x =
     (let r = (x + 524288) div 1048576
      in if r = 0 \<and> x < 0 then NegZero else Fin (of_int r))"

definition basicInfo :: "host \<Rightarrow> (string \<times> jsval) list" where
  "basicInfo h =
     [(''platform'', JStr (os_platform h)),
      (''architecture'', JStr (os_arch h)),
      (''uptime'', JNum (Fin (of_int \<lfloor>os_uptime h\<rfloor>))),
      (''memory'', JObj
         [(''total'', JNum (round_mb (os_totalmem h))),
          (''free'', JNum (round_mb (os_freemem h))),
          (''used'', JNum (round_mb (os_totalmem h - os_freemem h)))])]"

definition cpusInfo :: "host \<Rightarrow> jsval" where
  "cpusInfo h =
     JObj [(''count'', JNum (Fin (of_nat (length (os_cpus h))))),
           (''model'', (case os_cpus h of [] \<Rightarrow> JUndefined | c # cs \<Rightarrow> JStr (cpu_model c))),
           (''speed'', (case os_cpus h of [] \<Rightarrow> JUndefined | c # cs \<Rightarrow> JNum (cpu_speed c)))]"

definition sysinfo_execute :: "host \<Rightarrow> jsval \<Rightarrow> thrown + jsval" where
  "sysinfo_execute h args =
     (if \<not> destructurable args then Inl TypeError
      else
        let detail = (case js_get args ''detail'' of JUndefined \<Rightarrow> JStr ''basic'' | v \<Rightarrow> v)
        in if detail = JStr ''full''
           then Inr (JObj
                  [(''success'', JBool True),
                   (''data'', JObj (basicInfo h @ [(''cpus'', cpusInfo h)]))])
           else Inr (JObj [(''success'', JBool True), (''data'', JObj (basicInfo h))]))"

section \<open>integrations/google-adk.ts\<close>

record log_entry =
  log_toolName :: string
  log_arguments :: jsval
  log_result :: jsval
  log_timestamp :: int

record adk =
  adk_enabled :: bool
  adk_logs :: "log_entry list"

text \<open>The constructor reads the environment; its two console messages are not modelled.\<close>

definition GoogleADKIntegration :: "(string \<rightharpoonup> string) \<Rightarrow> adk" where
  "GoogleADKIntegration env =
     \<lparr>adk_enabled = (env ''GOOGLE_ADK_ENABLED'' = Some ''true''), adk_logs = []\<rparr>"

text \<open>
  \<open>logToolUsage\<close> pushes the entry; the branch on \<open>enabled\<close> is empty. The caller
  awaits its promise, which is never rejected: the result is always \<open>Inr\<close>.
\<close>

definition logToolUsage :: "adk \<Rightarrow> host \<Rightarrow> string \<Rightarrow> jsval \<Rightarrow> jsval \<Rightarrow> thrown + adk" where
  "logToolUsage g h toolName arguments' res =
     (let entry = \<lparr>log_toolName = toolName, log_arguments = arguments',
                    log_result = res, log_timestamp = clock_now h\<rparr>;
          g' = g\<lparr>adk_logs := adk_logs g @ [entry]\<rparr>
      in if adk_enabled g' then Inr g' else Inr g')"

section \<open>index.ts\<close>

text \<open>The three tool classes; a \<open>FileOperationsTool\<close> holds its workspace root.\<close>

datatype tool = CalculatorTool | FileOperationsTool string | SystemInfoTool

fun tool_name :: "tool \<Rightarrow> string" where
  "tool_name CalculatorTool = ''calculator''"
| "tool_name (FileOperationsTool wsRoot) = ''file_operations''"
| "tool_name SystemInfoTool = ''system_info''"

fun tool_description :: "tool \<Rightarrow> string" where
  "tool_description CalculatorTool =
     ''Perform basic mathematical calculations (add, subtract, multiply, divide)''"
| "tool_description (FileOperationsTool wsRoot) =
     ''Read, write, and list files in the current workspace''"
| "tool_description SystemInfoTool =
     ''Get information about the system (platform, CPU, memory, uptime)''"

fun tool_inputSchema :: "tool \<Rightarrow> input_schema" where
  "tool_inputSchema CalculatorTool = calculator_schema"
| "tool_inputSchema (FileOperationsTool wsRoot) = file_operations_schema"
| "tool_inputSchema SystemInfoTool = system_info_schema"

definition getDefinition :: "tool \<Rightarrow> tool_definition" where
  "getDefinition t =
     \<lparr>def_name = tool_name t, def_description = tool_description t,
      def_inputSchema = tool_inputSchema t\<rparr>"

definition tool_validateArguments :: "tool \<Rightarrow> jsval \<Rightarrow> thrown + unit" where
  "tool_validateArguments t args = validateArguments (tool_inputSchema t) args"

fun tool_execute :: "'fs runtime \<Rightarrow> host \<Rightarrow> tool \<Rightarrow> jsval \<Rightarrow> 'fs \<Rightarrow> (thrown + jsval) \<times> 'fs" where
  "tool_execute rt h CalculatorTool args fs = (calc_execute (rt_arith rt) args, fs)"
| "tool_execute rt h (FileOperationsTool wsRoot) args fs = fo_execute rt wsRoot args fs"
| "tool_execute rt h SystemInfoTool args fs = (sysinfo_execute h args, fs)"

text \<open>\<open>Map.set\<close>: a present key keeps its place and takes the new value, a new key goes last.\<close>

fun map_set :: "'k \<Rightarrow> 'v \<Rightarrow> ('k \<times> 'v) list \<Rightarrow> ('k \<times> 'v) list" where
  "map_set k v [] = [(k, v)]"
| "map_set k v ((k', v') # m) = (if k' = k then (k, v) # m else (k', v') # map_set k v m)"

record server =
  srv_tools :: "(string \<times> tool) list"
  srv_googleADK :: adk

definition registerTools :: "string \<Rightarrow> (string \<times> tool) list" where
  "registerTools cwd =
     foldl (\<lambda>m t. map_set (tool_name t) t m) []
       [CalculatorTool, FileOperationsTool cwd, SystemInfoTool]"

text \<open>The constructor of \<open>MCPServerDemo\<close>, in the environment \<open>env\<close> and directory \<open>cwd\<close>.\<close>

definition new_server :: "(string \<rightharpoonup> string) \<Rightarrow> string \<Rightarrow> server" where
  "new_server env cwd = \<lparr>srv_tools = registerTools cwd, srv_googleADK = GoogleADKIntegration env\<rparr>"

text \<open>
  The text of a response: \<open>JSON.stringify(v, null, 2)\<close> of a value, kept as the value,
  or a template literal.
\<close>

datatype response_text = Stringify jsval | Template message

record call_tool_result =
  content :: "response_text list"
  isError :: "bool option"

record resource =
  res_uri :: string
  res_name :: string
  res_description :: string
  res_mimeType :: string

record resource_contents =
  rc_uri :: string
  rc_mimeType :: string
  rc_text :: response_text

text \<open>The handler of \<open>tools/list\<close>.\<close>

definition list_tools :: "server \<Rightarrow> tool_definition list" where
  "list_tools srv = map getDefinition (map snd (srv_tools srv))"

text \<open>\<open>error instanceof Error ? error.message : String(error)\<close>\<close>

fun errorMessage :: "thrown \<Rightarrow> message" where
  "errorMessage (ErrorObj code msg) = msg"
| "errorMessage (NonError v) = [Interp v]"

definition error_result :: "thrown \<Rightarrow> call_tool_result" where
  "error_result error =
     \<lparr>content = [Template (Lit ''Error: '' # errorMessage error)], isError = Some True\<rparr>"

text \<open>
  The handler of \<open>tools/call\<close>. \<open>Inl\<close> is a throw of the handler itself, which the
  SDK answers with a JSON-RPC error; \<open>Inr\<close> is the result the handler returns.
\<close>

definition call_tool ::
  "'fs runtime \<Rightarrow> host \<Rightarrow> server \<Rightarrow> string \<Rightarrow> jsval \<Rightarrow> 'fs \<Rightarrow> (thrown + call_tool_result) \<times> server \<times> 'fs" where
  \<open>call_tool rt h srv name args fs =
     (case map_of (srv_tools srv) name of
        None \<Rightarrow> (Inl (Error [Lit ''Tool "'', Lit name, Lit ''" not found'']), srv, fs)
      | Some tool \<Rightarrow>
          (case tool_validateArguments tool args of
             Inl error \<Rightarrow> (Inr (error_result error), srv, fs)
           | Inr u \<Rightarrow>
               (case tool_execute rt h tool args fs of
                  (Inl error, fs') \<Rightarrow> (Inr (error_result error), srv, fs')
                | (Inr res, fs') \<Rightarrow>
                    (case logToolUsage (srv_googleADK srv) h name args res of
                       Inl error \<Rightarrow> (Inr (error_result error), srv, fs')
                     | Inr g' \<Rightarrow>
                         (Inr \<lparr>content = [Stringify res], isError = None\<rparr>,
                          srv\<lparr>srv_googleADK := g'\<rparr>, fs')))))\<close>

text \<open>The handlers of \<open>resources/list\<close> and \<open>resources/read\<close>.\<close>

definition list_resources :: "resource list" where
  "list_resources =
     [\<lparr>res_uri = ''file:///system-info'', res_name = ''System Information'',
       res_description = ''Current system information'',
       res_mimeType = ''application/json''\<rparr>]"

definition read_resource :: "host \<Rightarrow> string \<Rightarrow> thrown + resource_contents list" where
  \<open>read_resource h uri =
     (if uri = ''file:///system-info'' then
        (case sysinfo_execute h (JObj []) of
           Inl e \<Rightarrow> Inl e
         | Inr systemInfo \<Rightarrow>
             Inr [\<lparr>rc_uri = uri, rc_mimeType = ''application/json'',
                   rc_text = Stringify systemInfo\<rparr>])
      else Inl (Error [Lit ''Resource "'', Lit uri, Lit ''" not found'']))\<close>

text \<open>The four requests the server handles, and a run of the server over a sequence of them.\<close>

datatype request = ListTools | CallTool string jsval | ListResources | ReadResource string

datatype response =
    ToolsListed "tool_definition list"
  | ToolCalled call_tool_result
  | ResourcesListed "resource list"
  | ResourceRead "resource_contents list"

fun handle_request ::
  "'fs runtime \<Rightarrow> host \<Rightarrow> server \<Rightarrow> request \<Rightarrow> 'fs \<Rightarrow> (thrown + response) \<times> server \<times> 'fs" where
  "handle_request rt h srv ListTools fs = (Inr (ToolsListed (list_tools srv)), srv, fs)"
| "handle_request rt h srv (CallTool name args) fs =
     (case call_tool rt h srv name args fs of
        (r, srv', fs') \<Rightarrow> (map_sum id ToolCalled r, srv', fs'))"
| "handle_request rt h srv ListResources fs = (Inr (ResourcesListed list_resources), srv, fs)"
| "handle_request rt h srv (ReadResource uri) fs =
     (map_sum id ResourceRead (read_resource h uri), srv, fs)"

text \<open>The server and file system after a sequence of requests, each with the host's answers at its time.\<close>

fun run :: "'fs runtime \<Rightarrow> server \<Rightarrow> (host \<times> request) list \<Rightarrow> 'fs \<Rightarrow> server \<times> 'fs" where
  "run rt srv [] fs = (srv, fs)"
| "run rt srv ((h, req) # reqs) fs =
     (case handle_request rt h srv req fs of (r, srv', fs') \<Rightarrow> run rt srv' reqs fs')"

text \<open>The answers of the server to a sequence of requests.\<close>

fun responses :: "'fs runtime \<Rightarrow> server \<Rightarrow> (host \<times> request) list \<Rightarrow> 'fs \<Rightarrow> (thrown + response) list" where
  "responses rt srv [] fs = []"
| "responses rt srv ((h, req) # reqs) fs =
     (case handle_request rt h srv req fs of
        (r, srv', fs') \<Rightarrow> r # responses rt srv' reqs fs')"

section \<open>A small runtime for concrete evaluations\<close>

text \<open>
  A flat store of files by path, with a count of the calls made to it. Every call, also
  a failing one, adds one to the count.
\<close>

type_synonym demo_fs = "(string \<times> string) list \<times> nat"

definition demo_stats :: "string \<Rightarrow> stats" where
  "demo_stats c =
     \<lparr>st_isDirectory = False, st_size = Fin (of_nat (length c)), st_birthtime = 0, st_mtime = 0\<rparr>"

definition enoent :: node_error where
  "enoent = NodeError ''ENOENT'' [Lit ''ENOENT: no such file or directory'']"

definition demo_rt :: "demo_fs runtime" where
  "demo_rt =
     \<lparr>rt_join = (\<lambda>dir p. dir @ ''/'' @ p),
      rt_readFile = (\<lambda>p (files, n).
         (case map_of files p of None \<Rightarrow> Inl enoent | Some c \<Rightarrow> Inr c, (files, Suc n))),
      rt_writeFile = (\<lambda>p c (files, n).
         (case c of
            JStr t \<Rightarrow> (Inr (), ((p, t) # files, Suc n))
          | _ \<Rightarrow> (Inl (NodeError ''ERR_INVALID_ARG_TYPE'' [EngineText]), (files, Suc n)))),
      rt_readdir = (\<lambda>p (files, n).
         (case map_of files p of
            None \<Rightarrow> Inl enoent
          | Some c \<Rightarrow> Inl (NodeError ''ENOTDIR'' [Lit ''ENOTDIR: not a directory'']),
          (files, Suc n))),
      rt_stat = (\<lambda>p (files, n).
         (case map_of files p of None \<Rightarrow> Inl enoent | Some c \<Rightarrow> Inr (demo_stats c),
          (files, Suc n))),
      rt_arith = (\<lambda>opr a b. JNum NaN)\<rparr>"

definition demo_host :: host where
  "demo_host =
     \<lparr>os_platform = ''linux'', os_arch = ''x64'', os_uptime = 4000,
      os_totalmem = 8589934592, os_freemem = 3221225472,
      os_cpus = [\<lparr>cpu_model = ''cpu'', cpu_speed = Fin 2400\<rparr>], clock_now = 0\<rparr>"

section \<open>Evaluation and lookup lemmas\<close>

lemmas fl_defs = fl_def fl_frac_def fl_scale_def fl_mant_def fl_pack_def round_half_even_def
  round_tie_def ilog2_frac_def ilog2_adjust_def le_pow2_def pow2_def

lemma tools_get_new_server:
  "map_of (srv_tools (new_server env cwd)) ''calculator'' = Some CalculatorTool"
  "map_of (srv_tools (new_server env cwd)) ''file_operations'' = Some (FileOperationsTool cwd)"
  "map_of (srv_tools (new_server env cwd)) ''system_info'' = Some SystemInfoTool"
  by (simp_all add: new_server_def registerTools_def)

lemma js_includes_iff: "js_includes s pat \<longleftrightarrow> (\<exists>pre suf. s = pre @ pat @ suf)"
proof (induction s)
  case Nil
  then show ?case by auto
next
  case (Cons c cs)
  have sw: "js_startsWith (c # cs) pat \<longleftrightarrow> (\<exists>suf. c # cs = pat @ suf)"
    unfolding js_startsWith_def by (metis append_eq_conv_conj)
  show ?case
  proof
    assume "js_includes (c # cs) pat"
    then consider "js_startsWith (c # cs) pat" | "js_includes cs pat" by auto
    then show "\<exists>pre suf. c # cs = pre @ pat @ suf"
    proof cases
      case 1
      then obtain suf where "c # cs = pat @ suf" using sw by blast
      then have "c # cs = [] @ pat @ suf" by simp
      then show ?thesis by blast
    next
      case 2
      then obtain pre suf where "cs = pre @ pat @ suf" using Cons.IH by blast
      then have "c # cs = (c # pre) @ pat @ suf" by simp
      then show ?thesis by blast
    qed
  next
    assume "\<exists>pre suf. c # cs = pre @ pat @ suf"
    then obtain pre suf where eq: "c # cs = pre @ pat @ suf" by blast
    show "js_includes (c # cs) pat"
    proof (cases pre)
      case Nil
      then have "js_startsWith (c # cs) pat" using eq sw by auto
      then show ?thesis by simp
    next
      case (Cons d ds)
      then have "cs = ds @ pat @ suf" using eq by simp
      then have "js_includes cs pat" using Cons.IH by blast
      then show ?thesis by simp
    qed
  qed
qed

section \<open>The calculator\<close>

lemma calc_execute_numbers:
  "calc_execute other (calc_args opn a b) =
     (case calc_switch other (JStr opn) (JNum a) (JNum b) of
        Inl e \<Rightarrow> Inl e
      | Inr res \<Rightarrow>
          Inr (JObj [(''success'', JBool True),
                 (''data'', JObj [(''operation'', JStr opn),
                            (''operands'', JObj [(''a'', JNum a), (''b'', JNum b)]),
                            (''result'', res)])]))"
  by (simp add: calc_execute_def calc_args_def Let_def)

lemma rat_of_js_neg: "rat_of (js_neg b) = - rat_of b"
  by (cases b) auto

lemma is_finite_js_neg: "is_finite (js_neg b) = is_finite b"
  by (cases b) auto

lemma js_add_exact:
  "is_finite a \<Longrightarrow> is_finite b \<Longrightarrow> representable (rat_of a + rat_of b) \<Longrightarrow>
   is_finite (js_add a b) \<and> rat_of (js_add a b) = rat_of a + rat_of b"
  by (cases a; cases b) (auto simp: representable_def)

lemma js_sub_exact:
  "is_finite a \<Longrightarrow> is_finite b \<Longrightarrow> representable (rat_of a - rat_of b) \<Longrightarrow>
   is_finite (js_sub a b) \<and> rat_of (js_sub a b) = rat_of a - rat_of b"
  using js_add_exact [of a "js_neg b"] by (simp add: js_sub_def rat_of_js_neg is_finite_js_neg)

lemma js_mul_exact:
  "is_finite a \<Longrightarrow> is_finite b \<Longrightarrow> representable (rat_of a * rat_of b) \<Longrightarrow>
   is_finite (js_mul a b) \<and> rat_of (js_mul a b) = rat_of a * rat_of b"
  by (cases a; cases b) (auto simp: representable_def js_mul_def signed_zero_def)

lemma js_div_exact:
  "is_finite a \<Longrightarrow> is_finite b \<Longrightarrow> \<not> is_zero b \<Longrightarrow> representable (rat_of a / rat_of b) \<Longrightarrow>
   is_finite (js_div a b) \<and> rat_of (js_div a b) = rat_of a / rat_of b"
  by (cases a; cases b) (auto simp: representable_def js_div_def signed_zero_def)

lemma bitlen_bounds: "0 < n \<Longrightarrow> 2 ^ (bitlen n - 1) \<le> n \<and> n < 2 ^ bitlen n"
proof (induction n rule: bitlen.induct)
  case (1 n)
  show ?case
  proof (cases "n = 1")
    case True
    then show ?thesis by (simp add: bitlen.simps)
  next
    case False
    with "1.prems" have pos: "0 < n div 2" by simp
    then have ih: "2 ^ (bitlen (n div 2) - 1) \<le> n div 2 \<and> n div 2 < 2 ^ bitlen (n div 2)"
      using "1.IH" "1.prems" by simp
    have bl: "bitlen n = Suc (bitlen (n div 2))"
      using "1.prems" by (simp add: bitlen.simps [of n])
    have bpos: "0 < bitlen (n div 2)"
      using pos by (simp add: bitlen.simps [of "n div 2"])
    then have eq: "(2::int) ^ bitlen (n div 2) = 2 * 2 ^ (bitlen (n div 2) - 1)"
      by (cases "bitlen (n div 2)") simp_all
    have "2 * 2 ^ (bitlen (n div 2) - 1) \<le> 2 * (n div 2)" using ih by simp
    also have "\<dots> \<le> n" by simp
    finally have lo: "2 ^ (bitlen n - 1) \<le> n" using bl eq by simp
    have "n < 2 * (n div 2) + 2" by simp
    also have "\<dots> \<le> 2 * 2 ^ bitlen (n div 2)" using ih by simp
    finally have hi: "n < 2 ^ bitlen n" using bl by simp
    from lo hi show ?thesis by simp
  qed
qed

lemma ilog2_frac_int:
  assumes "2 ^ k \<le> n" and "bitlen n = Suc k"
  shows "ilog2_frac n 1 = int k"
proof -
  have b1: "bitlen 1 = 1" by (simp add: bitlen.simps)
  show ?thesis using assms by (simp add: ilog2_frac_def ilog2_adjust_def le_pow2_def b1)
qed

lemma fl_scale_int:
  assumes "n \<noteq> 0" and "rat_of_int n < pow2 1024"
  shows "fl_scale pos n 1 (- int j) = (if pos then Fin (of_int n) else Fin (- of_int n))"
proof -
  have m: "(if 0 \<le> - int j then round_half_even n (1 * 2 ^ nat (- int j))
        else round_half_even (n * 2 ^ nat (- (- int j))) 1) = n * 2 ^ j"
    by (cases "j = 0") (simp_all add: round_half_even_def round_tie_def)
  have v: "rat_of_int (n * 2 ^ j) * pow2 (- int j) = of_int n"
    by (cases "j = 0") (simp_all add: pow2_def)
  have m0: "n * 2 ^ j \<noteq> 0" using assms(1) by simp
  have big: "\<not> pow2 1024 \<le> rat_of_int n" using assms(2) by simp
  show ?thesis
    unfolding fl_scale_def m fl_mant_def v fl_pack_def
    using big m0 by simp
qed

lemma pow2_1024_gt: "(2::rat) ^ 53 < pow2 1024"
proof -
  have "(2::rat) ^ 53 < 2 ^ 1024" by (rule power_strict_increasing) simp_all
  moreover have "pow2 1024 = 2 ^ 1024" by (simp add: pow2_def)
  ultimately show ?thesis by (simp only:)
qed

lemma fl_frac_int:
  assumes "0 < n" and "n < 2 ^ 53"
  shows "fl_frac pos n 1 = (if pos then Fin (of_int n) else Fin (- of_int n))"
proof -
  obtain k where bl: "bitlen n = Suc k"
    using assms(1) by (cases "bitlen n") (simp_all add: bitlen.simps [of n])
  have lo: "2 ^ k \<le> n"
    using bitlen_bounds [OF assms(1)] bl by simp
  have k53: "k < 53"
  proof (rule ccontr)
    assume "\<not> k < 53"
    then have "53 \<le> k" by simp
    then have "(2::int) ^ 53 \<le> 2 ^ k" by (intro power_increasing) simp_all
    with lo assms(2) show False by linarith
  qed
  define j where "j = 52 - k"
  have kj: "max (int k - 52) (- 1074) = - int j" using k53 by (simp add: j_def)
  have "rat_of_int n < rat_of_int (2 ^ 53)" using assms(2) by (simp only: of_int_less_iff)
  then have "rat_of_int n < 2 ^ 53" by simp
  then have big: "rat_of_int n < pow2 1024" using pow2_1024_gt by linarith
  have n0: "n \<noteq> 0" using assms(1) by simp
  show ?thesis
    unfolding fl_frac_def ilog2_frac_int [OF lo bl] kj
    by (rule fl_scale_int [OF n0 big])
qed

lemma representable_int:
  assumes "\<bar>n\<bar> < 2 ^ 53"
  shows "representable (of_int n)"
proof (cases "n = 0")
  case True
  then show ?thesis by (simp add: representable_def fl_def)
next
  case False
  then have a: "0 < \<bar>n\<bar>" by simp
  have q: "quotient_of \<bar>rat_of_int n\<bar> = (\<bar>n\<bar>, 1)"
    using quotient_of_int [of "\<bar>n\<bar>"] by (simp add: Rat.of_int_def)
  have "fl (of_int n) = fl_frac (0 < n) \<bar>n\<bar> 1"
    using False by (simp add: fl_def q)
  also have "\<dots> = Fin (of_int n)"
    using fl_frac_int [OF a assms, of "0 < n"] False by (cases "0 < n") simp_all
  finally show ?thesis by (simp add: representable_def)
qed

lemma exact_op_int:
  assumes "opn \<noteq> ''divide''"
    and "opn \<in> {''add'', ''subtract'', ''multiply'', ''divide''}"
  shows "\<exists>z. exact_op opn (of_int i) (of_int j) = of_int z"
proof -
  consider "opn = ''add''" | "opn = ''subtract''" | "opn = ''multiply''"
    using assms by auto
  then show ?thesis
  proof cases
    case 1
    then have "exact_op opn (of_int i) (of_int j) = of_int (i + j)" by (simp add: exact_op_def)
    then show ?thesis by blast
  next
    case 2
    then have "exact_op opn (of_int i) (of_int j) = of_int (i - j)" by (simp add: exact_op_def)
    then show ?thesis by blast
  next
    case 3
    then have "exact_op opn (of_int i) (of_int j) = of_int (i * j)" by (simp add: exact_op_def)
    then show ?thesis by blast
  qed
qed

lemma representable_exact_op_int:
  assumes "opn \<noteq> ''divide''"
    and "opn \<in> {''add'', ''subtract'', ''multiply'', ''divide''}"
    and "\<bar>exact_op opn (of_int i) (of_int j)\<bar> < 2 ^ 53"
  shows "representable (exact_op opn (of_int i) (of_int j))"
proof -
  obtain z where z: "exact_op opn (of_int i) (of_int j) = of_int z"
    using exact_op_int [OF assms(1,2)] by blast
  have "\<bar>rat_of_int z\<bar> < rat_of_int (2 ^ 53)" using assms(3) z by simp
  then have "rat_of_int \<bar>z\<bar> < rat_of_int (2 ^ 53)" by simp
  then have "\<bar>z\<bar> < 2 ^ 53" by (simp only: of_int_less_iff)
  then show ?thesis using representable_int z by simp
qed

lemma fl_2p53_plus_1: "fl (9007199254740992 + 1) = Fin 9007199254740992"
  by (simp add: fl_defs bitlen.simps)

lemma fl_42: "fl 42 = Fin 42"
  by (simp add: fl_defs bitlen.simps)

text \<open>
  C3, as stated, fails: \<open>9007199254740992 + 1\<close> (\<open>2^53 + 1\<close>) is not a binary64
  value, and \<open>add\<close> returns \<open>9007199254740992\<close>, which is not the exact sum.
\<close>

theorem calc_add_inexact:
  "calc_execute (rt_arith demo_rt) (calc_args ''add'' (Fin 9007199254740992) (Fin 1))
     = Inr (calc_payload ''add'' (Fin 9007199254740992) (Fin 1) (Fin 9007199254740992))
   \<and> exact_op ''add'' 9007199254740992 1 \<noteq> 9007199254740992"
  using fl_2p53_plus_1
  by (simp add: calc_execute_numbers calc_switch_def js_arith_def calc_payload_def exact_op_def)

text \<open>
  C3, amended: for every calculator call with an operation among add, subtract,
  multiply and divide and two numbers \<open>a\<close> and \<open>b\<close>, \<open>b\<close> not a zero under
  divide, execution succeeds, the payload echoes the operation, both operands and the
  result, and the result is the double-precision value of \<open>a + b\<close>, \<open>a - b\<close>,
  \<open>a * b\<close> or \<open>a / b\<close>: the exact value rounded to the nearest binary64 number. It
  is the exact arithmetic value whenever the operands are finite and that value is
  itself a binary64 number; so it is for add, subtract and multiply on integers with an
  exact result below \<open>2^53\<close> in magnitude.
\<close>

theorem calc_result_rounded:
  assumes "opn \<in> {''add'', ''subtract'', ''multiply'', ''divide''}"
    and "opn = ''divide'' \<longrightarrow> \<not> is_zero b"
  shows "calc_execute other (calc_args opn a b) = Inr (calc_payload opn a b (num_op opn a b))
    \<and> (is_finite a \<and> is_finite b \<and> representable (exact_op opn (rat_of a) (rat_of b)) \<longrightarrow>
         is_finite (num_op opn a b)
         \<and> rat_of (num_op opn a b) = exact_op opn (rat_of a) (rat_of b))
    \<and> (opn \<noteq> ''divide'' \<and> a = Fin (of_int i) \<and> b = Fin (of_int j)
         \<and> \<bar>exact_op opn (of_int i) (of_int j)\<bar> < 2 ^ 53 \<longrightarrow>
         rat_of (num_op opn a b) = exact_op opn (of_int i) (of_int j))"
proof -
  have exact: "is_finite (num_op opn a b)
      \<and> rat_of (num_op opn a b) = exact_op opn (rat_of a) (rat_of b)"
    if fin: "is_finite a" "is_finite b"
      and rep: "representable (exact_op opn (rat_of a) (rat_of b))"
  proof -
    consider "opn = ''add''" | "opn = ''subtract''" | "opn = ''multiply''" | "opn = ''divide''"
      using assms(1) by auto
    then show ?thesis
    proof cases
      case 1
      then show ?thesis using js_add_exact [OF fin] rep by (simp add: num_op_def exact_op_def)
    next
      case 2
      then show ?thesis using js_sub_exact [OF fin] rep by (simp add: num_op_def exact_op_def)
    next
      case 3
      then show ?thesis using js_mul_exact [OF fin] rep by (simp add: num_op_def exact_op_def)
    next
      case 4
      then show ?thesis
        using js_div_exact [OF fin] rep assms(2) by (simp add: num_op_def exact_op_def)
    qed
  qed
  have ints: "rat_of (num_op opn a b) = exact_op opn (of_int i) (of_int j)"
    if h: "opn \<noteq> ''divide'' \<and> a = Fin (of_int i) \<and> b = Fin (of_int j)
         \<and> \<bar>exact_op opn (of_int i) (of_int j)\<bar> < 2 ^ 53"
  proof -
    have "representable (exact_op opn (rat_of a) (rat_of b))"
      using h representable_exact_op_int [OF _ assms(1), of i j] by simp
    then show ?thesis using exact [of] h by simp
  qed
  have run: "calc_execute other (calc_args opn a b) = Inr (calc_payload opn a b (num_op opn a b))"
    using assms
    by (auto simp: calc_execute_numbers calc_switch_def js_arith_def calc_payload_def num_op_def)
  from run exact ints show ?thesis by blast
qed

theorem calc_result_rounded_witness:
  "calc_execute (rt_arith demo_rt) (calc_args ''multiply'' (Fin 6) (Fin 7))
     = Inr (calc_payload ''multiply'' (Fin 6) (Fin 7) (Fin 42))
   \<and> representable (exact_op ''multiply'' 6 7)
   \<and> rat_of (num_op ''multiply'' (Fin 6) (Fin 7)) = 42"
  using calc_result_rounded [where opn = "''multiply''" and a = "Fin 6" and b = "Fin 7"
      and other = "rt_arith demo_rt" and i = 6 and j = 7] fl_42
  by (simp add: num_op_def exact_op_def js_mul_def representable_def)

text \<open>
  C4: for every calculator call with operation divide and \<open>b\<close> equal to 0 (either
  zero: \<open>-0 === 0\<close>), \<open>execute\<close> throws \<open>Division by zero is not allowed\<close>; it
  returns no result, so none with Infinity or NaN. Through the dispatcher the call is
  answered by an error result.
\<close>

theorem calc_divide_by_zero:
  assumes "map_of kvs ''operation'' = Some (JStr ''divide'')"
    and "map_of kvs ''b'' = Some (JNum z)"
    and "is_zero z"
  shows "calc_execute other (JObj kvs) = Inl (Error [Lit ''Division by zero is not allowed''])
    \<and> (\<exists>e. fst (call_tool rt h (new_server env cwd) ''calculator'' (JObj kvs) fs)
              = Inr (error_result e))"
proof -
  have ex: "calc_execute f (JObj kvs) = Inl (Error [Lit ''Division by zero is not allowed''])" for f
    using assms by (simp add: calc_execute_def calc_switch_def)
  show ?thesis
  proof (cases "tool_validateArguments CalculatorTool (JObj kvs)")
    case (Inl e)
    then show ?thesis using ex by (auto simp: call_tool_def tools_get_new_server)
  next
    case (Inr u)
    then show ?thesis using ex by (auto simp: call_tool_def tools_get_new_server)
  qed
qed

theorem calc_divide_by_zero_witness:
  "calc_execute (rt_arith demo_rt) (calc_args ''divide'' (Fin 1) NegZero)
     = Inl (Error [Lit ''Division by zero is not allowed''])
   \<and> (\<exists>e. fst (call_tool demo_rt demo_host (new_server Map.empty ''/w'') ''calculator''
               (calc_args ''divide'' (Fin 1) NegZero) ([], 0)) = Inr (error_result e))"
  using calc_divide_by_zero [of "[(''operation'', JStr ''divide''), (''a'', JNum (Fin 1)),
      (''b'', JNum NegZero)]" NegZero "rt_arith demo_rt" demo_rt demo_host Map.empty "''/w''" "([], 0)"]
  by (simp add: calc_args_def)

section \<open>File operations\<close>

text \<open>
  C1: for every file_operations call, whatever its operation, whose \<open>path\<close> is a
  string that contains \<open>..\<close> or starts with the separator \<open>/\<close>, \<open>execute\<close>
  throws \<open>Path traversal (..) is not allowed\<close>, or \<open>Absolute paths are not allowed\<close>,
  and the state of the file system is the one before the call. This holds for every
  runtime, also one whose every file-system function changes the state: none of them
  is called. Through the dispatcher the call is answered by an error result, and the
  file system and the server are as before.
\<close>

theorem path_rejected_before_fs:
  assumes "destructurable args"
    and "js_get args ''path'' = JStr p"
    and "js_includes p ''..'' \<or> js_startsWith p ''/''"
  shows "fo_execute rt wsRoot args fs =
           (Inl (Error [Lit (if js_includes p ''..'' then ''Path traversal (..) is not allowed''
                             else ''Absolute paths are not allowed'')]), fs)
    \<and> (\<exists>e. call_tool rt h (new_server env cwd) ''file_operations'' args fs
              = (Inr (error_result e), new_server env cwd, fs))"
proof
  show ex: "fo_execute rt wsRoot args fs =
           (Inl (Error [Lit (if js_includes p ''..'' then ''Path traversal (..) is not allowed''
                             else ''Absolute paths are not allowed'')]), fs)" for wsRoot
    using assms by (auto simp: fo_execute_def validatePath_def Let_def)
  show "\<exists>e. call_tool rt h (new_server env cwd) ''file_operations'' args fs
              = (Inr (error_result e), new_server env cwd, fs)"
  proof (cases "tool_validateArguments (FileOperationsTool cwd) args")
    case (Inl e)
    then show ?thesis by (auto simp: call_tool_def tools_get_new_server)
  next
    case (Inr u)
    then show ?thesis using ex [of cwd] by (auto simp: call_tool_def tools_get_new_server)
  qed
qed

theorem path_rejected_before_fs_witness:
  "fo_execute demo_rt ''/w''
     (JObj [(''operation'', JStr ''read''), (''path'', JStr ''../etc/passwd'')]) ([], 0)
   = (Inl (Error [Lit ''Path traversal (..) is not allowed'']), ([], 0))
   \<and> fo_execute demo_rt ''/w''
     (JObj [(''operation'', JStr ''write''), (''path'', JStr ''/etc/passwd''),
            (''content'', JStr ''x'')]) ([], 0)
   = (Inl (Error [Lit ''Absolute paths are not allowed'']), ([], 0))"
  using path_rejected_before_fs [where args = "JObj [(''operation'', JStr ''read''),
      (''path'', JStr ''../etc/passwd'')]" and p = "''../etc/passwd''" and rt = demo_rt
      and wsRoot = "''/w''" and fs = "([], 0)"]
    path_rejected_before_fs [where args = "JObj [(''operation'', JStr ''write''),
      (''path'', JStr ''/etc/passwd''), (''content'', JStr ''x'')]" and p = "''/etc/passwd''"
      and rt = demo_rt and wsRoot = "''/w''" and fs = "([], 0)"]
  by (simp add: js_startsWith_def)








section \<open>Argument validation\<close>

lemma check_required_iff: "isl (check_required names args) \<longleftrightarrow> (\<exists>f\<in>set names. \<not> js_in f args)"
  by (induction names) auto

lemma check_entry_iff:
  "isl (check_entry props (k, v)) \<longleftrightarrow>
     (\<exists>p. map_of props k = Some p \<and> ptype p \<in> {''number'', ''string'', ''boolean''}
          \<and> js_typeof v \<noteq> ptype p)"
  by (auto simp: check_entry_def Let_def split: option.splits)

lemma check_entry_iff_prod:
  "isl (check_entry props kv) \<longleftrightarrow>
     (case kv of (k, v) \<Rightarrow> \<exists>p. map_of props k = Some p
          \<and> ptype p \<in> {''number'', ''string'', ''boolean''} \<and> js_typeof v \<noteq> ptype p)"
  by (cases kv) (simp only: check_entry_iff split: prod.split, simp)

lemma check_entries_iff:
  "isl (check_entries props kvs) \<longleftrightarrow> (\<exists>kv\<in>set kvs. isl (check_entry props kv))"
  by (induction kvs) (auto split: sum.splits)

lemma validateArguments_iff:
  "isl (validateArguments s args) \<longleftrightarrow>
     (\<not> js_truthy args \<or> js_typeof args \<noteq> ''object'')
     \<or> (\<exists>f\<in>set (case required s of None \<Rightarrow> [] | Some names \<Rightarrow> names). \<not> js_in f args)
     \<or> (\<exists>kv\<in>set (js_entries args). isl (check_entry (properties s) kv))"
proof -
  let ?names = "case required s of None \<Rightarrow> [] | Some names \<Rightarrow> names"
  show ?thesis
  proof (cases "\<not> js_truthy args \<or> js_typeof args \<noteq> ''object''")
    case True
    then show ?thesis by (auto simp: validateArguments_def)
  next
    case False
    show ?thesis
    proof (cases "check_required ?names args")
      case (Inl e)
      then have "isl (check_required ?names args)" by simp
      then have "\<exists>f\<in>set ?names. \<not> js_in f args"
        using check_required_iff [of ?names args] by blast
      moreover have "isl (validateArguments s args)"
        using False Inl by (simp add: validateArguments_def)
      ultimately show ?thesis by blast
    next
      case (Inr u)
      then have "\<not> isl (check_required ?names args)" by simp
      then have nr: "\<not> (\<exists>f\<in>set ?names. \<not> js_in f args)"
        using check_required_iff [of ?names args] by blast
      have "validateArguments s args = check_entries (properties s) (js_entries args)"
        using False Inr by (simp add: validateArguments_def)
      then have "isl (validateArguments s args) \<longleftrightarrow>
          (\<exists>kv\<in>set (js_entries args). isl (check_entry (properties s) kv))"
        by (simp only: check_entries_iff)
      then show ?thesis using False nr by blast
    qed
  qed
qed

text \<open>
  C5: for every tool and every arguments value, \<open>validateArguments\<close> throws exactly
  when the value is falsy or its \<open>typeof\<close> is not \<open>object\<close> (absent or not an
  object), or a name in the schema's \<open>required\<close> is not a property of the arguments,
  or an entry of the arguments whose key is in the schema's \<open>properties\<close> has a
  \<open>typeof\<close> other than a declared type number, string or boolean. An entry whose key
  is not in \<open>properties\<close>, and one whose declared type is any other (object, array),
  passes its check whatever its value.
\<close>

theorem validation_rejects_iff:
  "(isl (tool_validateArguments t args) \<longleftrightarrow>
      (\<not> js_truthy args \<or> js_typeof args \<noteq> ''object'')
      \<or> (\<exists>f\<in>set (case required (tool_inputSchema t) of None \<Rightarrow> [] | Some names \<Rightarrow> names).
            \<not> js_in f args)
      \<or> (\<exists>(k, v)\<in>set (js_entries args). \<exists>p.
            map_of (properties (tool_inputSchema t)) k = Some p
            \<and> ptype p \<in> {''number'', ''string'', ''boolean''}
            \<and> js_typeof v \<noteq> ptype p))
   \<and> (map_of props k' = None \<longrightarrow> check_entry props (k', v') = Inr ())
   \<and> (map_of props k' = Some p' \<and> ptype p' \<notin> {''number'', ''string'', ''boolean''}
        \<longrightarrow> check_entry props (k', v') = Inr ())"
proof (intro conjI)
  show "isl (tool_validateArguments t args) \<longleftrightarrow>
      (\<not> js_truthy args \<or> js_typeof args \<noteq> ''object'')
      \<or> (\<exists>f\<in>set (case required (tool_inputSchema t) of None \<Rightarrow> [] | Some names \<Rightarrow> names).
            \<not> js_in f args)
      \<or> (\<exists>(k, v)\<in>set (js_entries args). \<exists>p.
            map_of (properties (tool_inputSchema t)) k = Some p
            \<and> ptype p \<in> {''number'', ''string'', ''boolean''}
            \<and> js_typeof v \<noteq> ptype p)"
    unfolding tool_validateArguments_def validateArguments_iff check_entry_iff_prod ..
next
  show "map_of props k' = None \<longrightarrow> check_entry props (k', v') = Inr ()"
    by (simp add: check_entry_def)
next
  show "map_of props k' = Some p' \<and> ptype p' \<notin> {''number'', ''string'', ''boolean''}
        \<longrightarrow> check_entry props (k', v') = Inr ()"
    by (auto simp: check_entry_def Let_def)
qed

theorem validation_rejects_iff_witness:
  "isl (tool_validateArguments CalculatorTool
          (JObj [(''operation'', JStr ''add''), (''a'', JStr ''1''), (''b'', JNum (Fin 2))]))
   \<and> \<not> isl (tool_validateArguments CalculatorTool
          (JObj [(''operation'', JStr ''add''), (''a'', JNum (Fin 1)), (''b'', JNum (Fin 2)),
                 (''extra'', JArr [])]))
   \<and> check_entry (properties calculator_schema) (''extra'', JArr []) = Inr ()"
  using validation_rejects_iff [of CalculatorTool
      "JObj [(''operation'', JStr ''add''), (''a'', JStr ''1''), (''b'', JNum (Fin 2))]"
      "properties calculator_schema" "''extra''" "JArr []"]
    validation_rejects_iff [of CalculatorTool
      "JObj [(''operation'', JStr ''add''), (''a'', JNum (Fin 1)), (''b'', JNum (Fin 2)),
             (''extra'', JArr [])]"
      "properties calculator_schema" "''extra''" "JArr []"]
  by (simp add: calculator_schema_def)

section \<open>The dispatcher\<close>

lemma logToolUsage_Inr:
  "logToolUsage g h n a r =
     Inr (g\<lparr>adk_logs := adk_logs g @
        [\<lparr>log_toolName = n, log_arguments = a, log_result = r, log_timestamp = clock_now h\<rparr>]\<rparr>)"
  by (simp add: logToolUsage_def Let_def)

lemma call_tool_registered:
  assumes "map_of (srv_tools srv) name = Some t"
  shows "fst (call_tool rt h srv name args fs) =
     Inr (case tool_validateArguments t args of
            Inl e \<Rightarrow> error_result e
          | Inr u \<Rightarrow>
              (case fst (tool_execute rt h t args fs) of
                 Inl e \<Rightarrow> error_result e
               | Inr res \<Rightarrow> \<lparr>content = [Stringify res], isError = None\<rparr>))"
  using assms
  by (simp add: call_tool_def logToolUsage_Inr split: sum.splits prod.splits)

lemma call_tool_unregistered:
  assumes "map_of (srv_tools srv) name = None"
  shows \<open>call_tool rt h srv name args fs =
     (Inl (Error [Lit ''Tool "'', Lit name, Lit ''" not found'']), srv, fs)\<close>
  using assms by (simp add: call_tool_def)

text \<open>
  C2, as stated, fails for a tool name that is not registered: the lookup and its
  \<open>throw\<close> stand before the \<open>try\<close> block, so the handler itself throws and returns
  no result with \<open>isError\<close>.
\<close>

theorem unknown_tool_throws:
  \<open>fst (call_tool demo_rt demo_host (new_server Map.empty ''/w'') ''nope'' (JObj []) ([], 0))
     = Inl (Error [Lit ''Tool "'', Lit ''nope'', Lit ''" not found''])
   \<and> fst (call_tool demo_rt demo_host (new_server Map.empty ''/w'') ''nope'' (JObj []) ([], 0))
     \<noteq> Inr (error_result (Error [Lit ''Tool "'', Lit ''nope'', Lit ''" not found'']))\<close>
  by (simp add: call_tool_def new_server_def registerTools_def)

text \<open>
  C2, amended: for every tools/call request that names a registered tool, the handler
  returns a result; a failure of the validation or of the tool's execution is returned
  as \<open>{content: [{type: "text", text: "Error: <message>"}], isError: true}\<close>, and a
  success as the stringified result without \<open>isError\<close>. For a name that is not
  registered the handler throws \<open>Tool "<name>" not found\<close>.
\<close>

theorem registered_tool_failures_enveloped:
  \<open>(map_of (srv_tools srv) name = Some t \<longrightarrow>
      fst (call_tool rt h srv name args fs) =
        Inr (case tool_validateArguments t args of
               Inl e \<Rightarrow>
                 \<lparr>content = [Template (Lit ''Error: '' # errorMessage e)], isError = Some True\<rparr>
             | Inr u \<Rightarrow>
                 (case fst (tool_execute rt h t args fs) of
                    Inl e \<Rightarrow>
                      \<lparr>content = [Template (Lit ''Error: '' # errorMessage e)],
                       isError = Some True\<rparr>
                  | Inr res \<Rightarrow> \<lparr>content = [Stringify res], isError = None\<rparr>)))
   \<and> (map_of (srv_tools srv) name = None \<longrightarrow>
      fst (call_tool rt h srv name args fs) =
        Inl (Error [Lit ''Tool "'', Lit name, Lit ''" not found'']))\<close>
  using call_tool_registered [of srv name t rt h args fs]
    call_tool_unregistered [of srv name rt h args fs]
  by (auto simp: error_result_def split: sum.splits)

theorem registered_tool_failures_enveloped_witness:
  \<open>fst (call_tool demo_rt demo_host (new_server Map.empty ''/w'') ''file_operations''
      (JObj [(''operation'', JStr ''read''), (''path'', JStr ''../etc/passwd'')]) ([], 0))
     = Inr \<lparr>content = [Template [Lit ''Error: '', Lit ''Path traversal (..) is not allowed'']],
            isError = Some True\<rparr>
   \<and> fst (call_tool demo_rt demo_host (new_server Map.empty ''/w'') ''calculator''
      JUndefined ([], 0))
     = Inr \<lparr>content = [Template [Lit ''Error: '', Lit ''Arguments must be an object'']],
            isError = Some True\<rparr>
   \<and> fst (call_tool demo_rt demo_host (new_server Map.empty ''/w'') ''nope''
      JUndefined ([], 0))
     = Inl (Error [Lit ''Tool "'', Lit ''nope'', Lit ''" not found''])\<close>
  using registered_tool_failures_enveloped [of "new_server Map.empty ''/w''" "''file_operations''"
      "FileOperationsTool ''/w''" demo_rt demo_host
      "JObj [(''operation'', JStr ''read''), (''path'', JStr ''../etc/passwd'')]" "([], 0)"]
    registered_tool_failures_enveloped [of "new_server Map.empty ''/w''" "''calculator''"
      CalculatorTool demo_rt demo_host JUndefined "([], 0)"]
    registered_tool_failures_enveloped [of "new_server Map.empty ''/w''" "''nope''"
      CalculatorTool demo_rt demo_host JUndefined "([], 0)"]
  by (simp add: tools_get_new_server tool_validateArguments_def validateArguments_def
      file_operations_schema_def calculator_schema_def check_entry_def fo_execute_def
      validatePath_def js_startsWith_def new_server_def registerTools_def)

lemma map_of_map_penum:
  "map_of (map (\<lambda>(k, p). (k, p\<lparr>penum := e k\<rparr>)) props) k
     = map_option (\<lambda>p. p\<lparr>penum := e k\<rparr>) (map_of props k)"
  by (induction props) auto

lemma check_entry_penum:
  "check_entry (map (\<lambda>(k, p). (k, p\<lparr>penum := e k\<rparr>)) props) kv = check_entry props kv"
  by (cases kv) (simp add: check_entry_def map_of_map_penum split: option.splits)

lemma check_entries_penum:
  "check_entries (map (\<lambda>(k, p). (k, p\<lparr>penum := e k\<rparr>)) props) kvs = check_entries props kvs"
  by (induction kvs) (auto simp: check_entry_penum split: sum.splits)

lemma sysinfo_detail_string:
  "d \<noteq> ''full'' \<Longrightarrow> sysinfo_execute h (JObj [(''detail'', JStr d)])
     = Inr (JObj [(''success'', JBool True), (''data'', JObj (basicInfo h))])"
  by (simp add: sysinfo_execute_def)

lemma sysinfo_validates:
  "tool_validateArguments SystemInfoTool (JObj [(''detail'', JStr d)]) = Inr ()"
  by (simp add: tool_validateArguments_def validateArguments_def system_info_schema_def
      check_entry_def)

text \<open>
  C10: \<open>validateArguments\<close> does not read the \<open>enum\<close> of a property: with any
  other \<open>enum\<close> values in the schema its outcome is the same. Arguments that pass it
  reach \<open>execute\<close>, whose outcome is the response. A system_info call with
  \<open>detail\<close> any string passes validation, and with any string other than \<open>full\<close>
  it succeeds with the basic payload.
\<close>

theorem enum_not_enforced:
  "validateArguments (s\<lparr>properties := map (\<lambda>(k, p). (k, p\<lparr>penum := e k\<rparr>)) (properties s)\<rparr>) args
     = validateArguments s args
   \<and> tool_validateArguments SystemInfoTool (JObj [(''detail'', JStr d)]) = Inr ()
   \<and> (d \<noteq> ''full'' \<longrightarrow>
        fst (call_tool rt h (new_server env cwd) ''system_info'' (JObj [(''detail'', JStr d)]) fs)
          = Inr \<lparr>content = [Stringify (JObj [(''success'', JBool True),
                                             (''data'', JObj (basicInfo h))])],
                 isError = None\<rparr>)
   \<and> (map_of (srv_tools srv) name = Some t \<and> tool_validateArguments t args' = Inr () \<longrightarrow>
        fst (call_tool rt h srv name args' fs)
          = Inr (case fst (tool_execute rt h t args' fs) of
                   Inl err \<Rightarrow> error_result err
                 | Inr res \<Rightarrow> \<lparr>content = [Stringify res], isError = None\<rparr>))"
proof (intro conjI impI)
  show "validateArguments (s\<lparr>properties := map (\<lambda>(k, p). (k, p\<lparr>penum := e k\<rparr>)) (properties s)\<rparr>) args
     = validateArguments s args"
    by (simp add: validateArguments_def check_entries_penum split: sum.splits)
next
  show "tool_validateArguments SystemInfoTool (JObj [(''detail'', JStr d)]) = Inr ()"
    by (rule sysinfo_validates)
next
  assume "d \<noteq> ''full''"
  then show "fst (call_tool rt h (new_server env cwd) ''system_info'' (JObj [(''detail'', JStr d)]) fs)
          = Inr \<lparr>content = [Stringify (JObj [(''success'', JBool True),
                                             (''data'', JObj (basicInfo h))])],
                 isError = None\<rparr>"
    using call_tool_registered [OF tools_get_new_server(3), of rt h env cwd "JObj [(''detail'', JStr d)]" fs]
    by (simp add: sysinfo_validates sysinfo_detail_string)
next
  assume "map_of (srv_tools srv) name = Some t \<and> tool_validateArguments t args' = Inr ()"
  then show "fst (call_tool rt h srv name args' fs)
          = Inr (case fst (tool_execute rt h t args' fs) of
                   Inl err \<Rightarrow> error_result err
                 | Inr res \<Rightarrow> \<lparr>content = [Stringify res], isError = None\<rparr>)"
    using call_tool_registered [of srv name t rt h args' fs] by simp
qed

theorem enum_not_enforced_witness:
  "tool_validateArguments SystemInfoTool (JObj [(''detail'', JStr ''verbose'')]) = Inr ()
   \<and> fst (call_tool demo_rt demo_host (new_server Map.empty ''/w'') ''system_info''
        (JObj [(''detail'', JStr ''verbose'')]) ([], 0))
     = Inr \<lparr>content = [Stringify (JObj [(''success'', JBool True),
          (''data'', JObj
             [(''platform'', JStr ''linux''), (''architecture'', JStr ''x64''),
              (''uptime'', JNum (Fin 4000)),
              (''memory'', JObj [(''total'', JNum (Fin 8192)), (''free'', JNum (Fin 3072)),
                                 (''used'', JNum (Fin 5120))])])])],
            isError = None\<rparr>"
  using enum_not_enforced [where s = system_info_schema and e = "\<lambda>k. None" and args = JNull
      and d = "''verbose''" and rt = demo_rt and h = demo_host and env = Map.empty
      and cwd = "''/w''" and fs = "([], 0)" and srv = "new_server Map.empty ''/w''"
      and name = "''system_info''" and t = SystemInfoTool
      and args' = "JObj [(''detail'', JStr ''verbose'')]"]
  by (simp add: basicInfo_def demo_host_def round_mb_def)

text \<open>
  C6: reading \<open>file:///system-info\<close> returns one content of MIME type
  \<open>application/json\<close> whose text is the JSON of the result of \<open>SystemInfoTool\<close> run
  on \<open>{}\<close>, which is the basic detail: \<open>platform\<close>, \<open>architecture\<close>,
  \<open>uptime\<close> and \<open>memory\<close> with \<open>total\<close>, \<open>free\<close>, \<open>used\<close>, computed
  from the host at the time of the request. Every other URI makes the handler throw
  \<open>Resource "<uri>" not found\<close>.
\<close>

theorem read_resource_system_info:
  \<open>sysinfo_execute h (JObj []) = sysinfo_execute h (JObj [(''detail'', JStr ''basic'')])
   \<and> sysinfo_execute h (JObj [(''detail'', JStr ''basic'')])
       = Inr (JObj [(''success'', JBool True), (''data'', JObj (basicInfo h))])
   \<and> read_resource h ''file:///system-info'' =
       Inr [\<lparr>rc_uri = ''file:///system-info'', rc_mimeType = ''application/json'',
             rc_text = Stringify (JObj [(''success'', JBool True),
                                        (''data'', JObj (basicInfo h))])\<rparr>]
   \<and> basicInfo h =
       [(''platform'', JStr (os_platform h)),
        (''architecture'', JStr (os_arch h)),
        (''uptime'', JNum (Fin (of_int \<lfloor>os_uptime h\<rfloor>))),
        (''memory'', JObj
           [(''total'', JNum (round_mb (os_totalmem h))),
            (''free'', JNum (round_mb (os_freemem h))),
            (''used'', JNum (round_mb (os_totalmem h - os_freemem h)))])]
   \<and> (uri \<noteq> ''file:///system-info'' \<longrightarrow>
        read_resource h uri = Inl (Error [Lit ''Resource "'', Lit uri, Lit ''" not found'']))\<close>
  by (simp add: read_resource_def sysinfo_execute_def) (simp add: basicInfo_def)

theorem read_resource_system_info_witness:
  \<open>read_resource demo_host ''file:///other'' =
     Inl (Error [Lit ''Resource "'', Lit ''file:///other'', Lit ''" not found''])
   \<and> read_resource demo_host ''file:///system-info'' =
     Inr [\<lparr>rc_uri = ''file:///system-info'', rc_mimeType = ''application/json'',
           rc_text = Stringify (JObj
             [(''success'', JBool True),
              (''data'', JObj
                 [(''platform'', JStr ''linux''),
                  (''architecture'', JStr ''x64''),
                  (''uptime'', JNum (Fin 4000)),
                  (''memory'', JObj
                     [(''total'', JNum (Fin 8192)),
                      (''free'', JNum (Fin 3072)),
                      (''used'', JNum (Fin 5120))])])])\<rparr>]\<close>
  using read_resource_system_info [where h = demo_host and uri = "''file:///other''"]
  by (simp add: demo_host_def round_mb_def)

lemma call_tool_tools: "srv_tools (fst (snd (call_tool rt h srv name args fs))) = srv_tools srv"
  by (simp add: call_tool_def logToolUsage_Inr split: option.splits sum.splits prod.splits)

lemma handle_request_tools:
  "srv_tools (fst (snd (handle_request rt h srv req fs))) = srv_tools srv"
  by (cases req) (simp_all add: split_beta call_tool_tools)

lemma run_tools: "srv_tools (fst (run rt srv reqs fs)) = srv_tools srv"
proof (induction reqs arbitrary: srv fs)
  case Nil
  then show ?case by simp
next
  case (Cons hr reqs)
  obtain h req where hr: "hr = (h, req)" by (cases hr)
  obtain r srv' fs' where step: "handle_request rt h srv req fs = (r, srv', fs')"
    by (cases "handle_request rt h srv req fs") auto
  have "srv_tools srv' = srv_tools srv"
    using handle_request_tools [of rt h srv req fs] step by simp
  then show ?case using Cons.IH [of srv' fs'] hr step by simp
qed

text \<open>
  C7: tools/list returns the definitions of calculator, file_operations and system_info,
  in this order, each with its name, description and input schema; and it returns the
  same list after any sequence of requests.
\<close>

theorem list_tools_three:
  "list_tools (new_server env cwd) =
     [\<lparr>def_name = ''calculator'',
       def_description =
         ''Perform basic mathematical calculations (add, subtract, multiply, divide)'',
       def_inputSchema = calculator_schema\<rparr>,
      \<lparr>def_name = ''file_operations'',
       def_description = ''Read, write, and list files in the current workspace'',
       def_inputSchema = file_operations_schema\<rparr>,
      \<lparr>def_name = ''system_info'',
       def_description = ''Get information about the system (platform, CPU, memory, uptime)'',
       def_inputSchema = system_info_schema\<rparr>]
   \<and> list_tools (fst (run rt (new_server env cwd) reqs fs)) = list_tools (new_server env cwd)
   \<and> fst (handle_request rt h (fst (run rt (new_server env cwd) reqs fs)) ListTools fs')
       = Inr (ToolsListed (list_tools (new_server env cwd)))"
  by (simp add: list_tools_def run_tools)
    (simp add: new_server_def registerTools_def getDefinition_def)

theorem list_tools_three_witness:
  "map def_name (list_tools (fst (run demo_rt (new_server Map.empty ''/w'')
       [(demo_host, CallTool ''calculator'' (calc_args ''add'' (Fin 1) (Fin 2))),
        (demo_host, ListTools)] ([], 0)))) = [''calculator'', ''file_operations'', ''system_info'']"
  using list_tools_three [where rt = demo_rt and env = Map.empty and cwd = "''/w''"
      and reqs = "[(demo_host, CallTool ''calculator'' (calc_args ''add'' (Fin 1) (Fin 2))),
        (demo_host, ListTools)]" and fs = "([], 0)"]
  by simp

lemma call_tool_recorder:
  assumes "srv_tools s1 = srv_tools s2"
  shows "fst (call_tool rt h s1 name args fs) = fst (call_tool rt h s2 name args fs)
    \<and> snd (snd (call_tool rt h s1 name args fs)) = snd (snd (call_tool rt h s2 name args fs))"
  using assms
  by (simp add: call_tool_def logToolUsage_Inr split: option.splits sum.splits prod.splits)

lemma handle_request_recorder:
  assumes "srv_tools s1 = srv_tools s2"
  shows "fst (handle_request rt h s1 req fs) = fst (handle_request rt h s2 req fs)
    \<and> snd (snd (handle_request rt h s1 req fs)) = snd (snd (handle_request rt h s2 req fs))"
proof (cases req)
  case (CallTool name args)
  then show ?thesis
    using call_tool_recorder [OF assms, of rt h name args fs]
    by (simp add: split_beta)
qed (simp_all add: list_tools_def assms)

lemma responses_recorder:
  "srv_tools s1 = srv_tools s2 \<Longrightarrow> responses rt s1 reqs fs = responses rt s2 reqs fs"
proof (induction reqs arbitrary: s1 s2 fs)
  case Nil
  then show ?case by simp
next
  case (Cons hr reqs)
  obtain h req where hr: "hr = (h, req)" by (cases hr)
  obtain r1 t1 f1 where st1: "handle_request rt h s1 req fs = (r1, t1, f1)"
    by (cases "handle_request rt h s1 req fs") auto
  obtain r2 t2 f2 where st2: "handle_request rt h s2 req fs = (r2, t2, f2)"
    by (cases "handle_request rt h s2 req fs") auto
  have "r1 = r2" "f1 = f2"
    using handle_request_recorder [OF Cons.prems, of rt h req fs] st1 st2 by simp_all
  moreover have "srv_tools t1 = srv_tools t2"
    using handle_request_tools [of rt h s1 req fs] handle_request_tools [of rt h s2 req fs]
      st1 st2 Cons.prems by simp
  ultimately show ?case using Cons.IH [of t1 t2 f1] hr st1 st2 by simp
qed

text \<open>
  C9: the recording step never fails (\<open>logToolUsage\<close> always returns), and the
  responses do not depend on the recorder: two servers with the same tools, whatever
  their \<open>enabled\<close> flags and logs, answer a tools/call, and every sequence of
  requests, alike. In particular the server constructed with
  \<open>GOOGLE_ADK_ENABLED\<close> set to \<open>true\<close> answers as the one constructed with any other
  environment.
\<close>

theorem recorder_no_influence:
  "(\<exists>g'. logToolUsage g h name args res = Inr g')
   \<and> (srv_tools s1 = srv_tools s2 \<longrightarrow>
        fst (call_tool rt h s1 name args fs) = fst (call_tool rt h s2 name args fs)
        \<and> responses rt s1 reqs fs = responses rt s2 reqs fs)
   \<and> fst (call_tool rt h (new_server env1 cwd) name args fs)
       = fst (call_tool rt h (new_server env2 cwd) name args fs)
   \<and> responses rt (new_server env1 cwd) reqs fs = responses rt (new_server env2 cwd) reqs fs"
proof (intro conjI impI)
  show "\<exists>g'. logToolUsage g h name args res = Inr g'"
    by (simp add: logToolUsage_Inr)
next
  assume "srv_tools s1 = srv_tools s2"
  then show "fst (call_tool rt h s1 name args fs) = fst (call_tool rt h s2 name args fs)"
    using call_tool_recorder [of s1 s2 rt h name args fs] by simp
next
  assume "srv_tools s1 = srv_tools s2"
  then show "responses rt s1 reqs fs = responses rt s2 reqs fs"
    by (rule responses_recorder)
next
  have "srv_tools (new_server env1 cwd) = srv_tools (new_server env2 cwd)"
    by (simp add: new_server_def)
  then show "fst (call_tool rt h (new_server env1 cwd) name args fs)
       = fst (call_tool rt h (new_server env2 cwd) name args fs)"
    using call_tool_recorder [of "new_server env1 cwd" "new_server env2 cwd" rt h name args fs]
    by simp
next
  have "srv_tools (new_server env1 cwd) = srv_tools (new_server env2 cwd)"
    by (simp add: new_server_def)
  then show "responses rt (new_server env1 cwd) reqs fs = responses rt (new_server env2 cwd) reqs fs"
    by (rule responses_recorder)
qed

theorem recorder_no_influence_witness:
  "fst (call_tool demo_rt demo_host (new_server [''GOOGLE_ADK_ENABLED'' \<mapsto> ''true''] ''/w'')
        ''calculator'' (calc_args ''multiply'' (Fin 6) (Fin 7)) ([], 0))
   = fst (call_tool demo_rt demo_host (new_server Map.empty ''/w'')
        ''calculator'' (calc_args ''multiply'' (Fin 6) (Fin 7)) ([], 0))
   \<and> adk_enabled (srv_googleADK (new_server [''GOOGLE_ADK_ENABLED'' \<mapsto> ''true''] ''/w''))
   \<and> \<not> adk_enabled (srv_googleADK (new_server Map.empty ''/w''))"
  using recorder_no_influence [where rt = demo_rt and h = demo_host
      and ?s1.0 = "new_server [''GOOGLE_ADK_ENABLED'' \<mapsto> ''true''] ''/w''"
      and ?s2.0 = "new_server Map.empty ''/w''"
      and ?env1.0 = "[''GOOGLE_ADK_ENABLED'' \<mapsto> ''true'']" and ?env2.0 = Map.empty
      and cwd = "''/w''" and name = "''calculator''"
      and args = "calc_args ''multiply'' (Fin 6) (Fin 7)" and fs = "([], 0)"]
  by (simp add: new_server_def GoogleADKIntegration_def)

end
